theory Spec2Isabelle
  imports Complex_Main "HOL-Library.Word"
begin

text \<open>
  A shallow embedding of the front end of Clipia: the modules \<^verbatim>\<open>video_trimming.js\<close>,
  \<^verbatim>\<open>file_upload.js\<close>, \<^verbatim>\<open>tab_navigation.js\<close> and \<^verbatim>\<open>app.js\<close>. Each listener is a function
  from the state of the page to the state after it has run; a \<^verbatim>\<open>fetch\<close> is recorded as a
  request, and the promise chain that waits for it is a function of the outcome of the
  request. The back end is not part of the sources; the Asset Store and the Trim Engine
  that the specification describes are modelled from the specification, apart from the
  code.
\<close>

section \<open>JavaScript values used by the front end\<close>

text \<open>
  A JavaScript number as \<^verbatim>\<open>parseFloat\<close> can return it: not-a-number, an infinity or a
  finite value. Only comparisons are applied to these numbers, and comparison of finite
  doubles agrees with comparison of the reals they denote (\<open>-0\<close> and \<open>0\<close> compare equal).
\<close>

datatype jsnum = NaN | NegInf | Fin real | PosInf

text \<open>\<^verbatim>\<open>isNaN(x)\<close> on a number.\<close>

fun isNaN :: "jsnum \<Rightarrow> bool" where
  "isNaN NaN = True"
| "isNaN NegInf = False"
| "isNaN (Fin x) = False"
| "isNaN PosInf = False"

text \<open>\<^verbatim>\<open>a < b\<close>: false as soon as one side is NaN.\<close>

fun js_lt :: "jsnum \<Rightarrow> jsnum \<Rightarrow> bool" where
  "js_lt NaN b = False"
| "js_lt NegInf NaN = False"
| "js_lt NegInf NegInf = False"
| "js_lt NegInf (Fin y) = True"
| "js_lt NegInf PosInf = True"
| "js_lt (Fin x) NaN = False"
| "js_lt (Fin x) NegInf = False"
| "js_lt (Fin x) (Fin y) = (x < y)"
| "js_lt (Fin x) PosInf = True"
| "js_lt PosInf b = False"

text \<open>\<^verbatim>\<open>a >= b\<close>: false as soon as one side is NaN, otherwise the negation of \<^verbatim>\<open>a < b\<close>.\<close>

fun js_ge :: "jsnum \<Rightarrow> jsnum \<Rightarrow> bool" where
  "js_ge a b = (if isNaN a then False else if isNaN b then False else \<not> js_lt a b)"

text \<open>
  A filename variable holds \<^verbatim>\<open>null\<close>/\<^verbatim>\<open>undefined\<close> (\<open>None\<close>) or a string. It is truthy
  when it is a non-empty string.
\<close>

fun truthy :: "string option \<Rightarrow> bool" where
  "truthy None = False"
| "truthy (Some s) = (s \<noteq> [])"

text \<open>\<^verbatim>\<open>v || d\<close> for an optional string \<open>v\<close> and a string literal \<open>d\<close>.\<close>

fun or_default :: "string option \<Rightarrow> string \<Rightarrow> string" where
  "or_default None d = d"
| "or_default (Some s) d = (if s \<noteq> [] then s else d)"

text \<open>The string a template literal \<^verbatim>\<open>${v}\<close> inserts.\<close>

fun to_string :: "string option \<Rightarrow> string" where
  "to_string None = ''null''"
| "to_string (Some s) = s"

text \<open>\<^verbatim>\<open>classList.add(c)\<close> and \<^verbatim>\<open>classList.remove(c)\<close> on an ordered set of tokens.\<close>

definition class_add :: "string \<Rightarrow> string list \<Rightarrow> string list" where
  "class_add c cs = (if c \<in> set cs then cs else cs @ [c])"

definition class_remove :: "string \<Rightarrow> string list \<Rightarrow> string list" where
  "class_remove c cs = removeAll c cs"

section \<open>The page of the upload tab\<close>

text \<open>
  The state the two modules \<^verbatim>\<open>file_upload.js\<close> and \<^verbatim>\<open>video_trimming.js\<close> read and
  write: the properties of the DOM elements they touch, the closure variable
  \<^verbatim>\<open>currentVideoFilename\<close> of every call of an initialisation function that registered
  listeners, the alerts shown and the requests handed to \<^verbatim>\<open>fetch\<close>. Calls of
  \<^verbatim>\<open>console.log\<close> and \<^verbatim>\<open>event.preventDefault\<close> leave this state alone and are not
  modelled.
\<close>

record button =
  disabled :: bool
  classList :: "string list"
  textContent :: string

text \<open>A \<^verbatim>\<open>File\<close> of the file input.\<close>

record File =
  file_name :: string
  file_type :: string
  file_size :: nat

text \<open>
  The object \<^verbatim>\<open>trimData\<close> that the click listener builds; \<open>trim_filename\<close> is its key
  \<^verbatim>\<open>filename\<close>.
\<close>

record trimData =
  trim_filename :: "string option"
  start_time :: jsnum
  end_time :: jsnum

text \<open>
  \<^verbatim>\<open>JSON.stringify\<close> on a number: a finite number is written as it is, \<^verbatim>\<open>NaN\<close> and the
  infinities are written as \<^verbatim>\<open>null\<close> (\<open>None\<close>).
\<close>

fun json_number :: "jsnum \<Rightarrow> real option" where
  "json_number NaN = None"
| "json_number NegInf = None"
| "json_number (Fin x) = Some x"
| "json_number PosInf = None"

text \<open>
  The JSON text that \<^verbatim>\<open>JSON.stringify(trimData)\<close> produces, as the object it denotes: the
  keys \<^verbatim>\<open>filename\<close>, \<^verbatim>\<open>start_time\<close> and \<^verbatim>\<open>end_time\<close>, each a value or \<^verbatim>\<open>null\<close>.
\<close>

record trimJSON =
  json_filename :: "string option"
  json_start_time :: "real option"
  json_end_time :: "real option"

definition JSON_stringify :: "trimData \<Rightarrow> trimJSON" where
  "JSON_stringify t =
     \<lparr>json_filename = trim_filename t,
      json_start_time = json_number (start_time t),
      json_end_time = json_number (end_time t)\<rparr>"

text \<open>
  A call of \<^verbatim>\<open>fetch\<close> with its body, tagged with the index of the listener whose promise
  chain waits for its outcome.
\<close>

datatype request = TrimVideo nat trimJSON | UploadVideo nat File

record page =
  ids :: "string list"
  start_second_disabled :: bool
  end_second_disabled :: bool
  trim_video_button :: button
  upload_video_button :: button
  video_preview_area :: "string list"
  video_src :: string
  video_duration :: jsnum
  video_metadata :: "File option"
  video_file_input :: "File option"
  upload_filenames :: "string option list"
  trim_filenames :: "string option list"
  alerts :: "string list"
  requests :: "request list"

text \<open>
  \<^item> \<open>ids\<close>: the ids for which \<^verbatim>\<open>document.getElementById\<close> finds an element;
  \<^item> \<open>video_preview_area\<close>: the class list of \<^verbatim>\<open>#video-preview-area\<close>;
  \<^item> \<open>video_src\<close>, \<open>video_duration\<close>: \<^verbatim>\<open>src\<close> and \<^verbatim>\<open>duration\<close> of
    \<^verbatim>\<open>#video-preview\<close> (no handler reads the duration);
  \<^item> \<open>video_metadata\<close>: the file whose name, type and size \<^verbatim>\<open>#video-metadata\<close> shows
    (\<open>None\<close> for the empty \<^verbatim>\<open>innerHTML\<close>);
  \<^item> \<open>video_file_input\<close>: \<^verbatim>\<open>files[0]\<close> of \<^verbatim>\<open>#video-file-input\<close>;
  \<^item> \<open>upload_filenames\<close>: \<^verbatim>\<open>currentVideoFilename\<close> of each call of
    \<^verbatim>\<open>initializeFileUpload\<close> that registered its listeners, in order of registration;
  \<^item> \<open>trim_filenames\<close>: \<^verbatim>\<open>currentVideoFilename\<close> of each call of
    \<^verbatim>\<open>initializeVideoTrimming\<close> that registered its click listener, in order of
    registration.
\<close>

text \<open>Whether \<^verbatim>\<open>document.getElementById(i)\<close> is an element rather than \<^verbatim>\<open>null\<close>.\<close>

definition hasElementById :: "string \<Rightarrow> page \<Rightarrow> bool" where
  "hasElementById i st = (i \<in> set (ids st))"

definition alert :: "string \<Rightarrow> page \<Rightarrow> page" where
  "alert msg st = st\<lparr>alerts := alerts st @ [msg]\<rparr>"

section \<open>video\_trimming.js\<close>

definition initializeVideoTrimming :: "string option \<Rightarrow> page \<Rightarrow> page" where
  "initializeVideoTrimming uploadedFilename st =
     (if hasElementById ''start-second'' st \<and> hasElementById ''end-second'' st
         \<and> hasElementById ''trim-video-button'' st \<and> hasElementById ''video-preview-area'' st
         \<and> hasElementById ''video-preview'' st
      then
        (if truthy uploadedFilename
         then st\<lparr>start_second_disabled := False, end_second_disabled := False,
                 trim_video_button := (trim_video_button st)\<lparr>disabled := False\<rparr>,
                 trim_filenames := trim_filenames st @ [uploadedFilename]\<rparr>
         else st\<lparr>start_second_disabled := True, end_second_disabled := True,
                 trim_video_button := (trim_video_button st)\<lparr>disabled := True\<rparr>,
                 trim_filenames := trim_filenames st @ [uploadedFilename]\<rparr>)
      else st)"

text \<open>
  The click listener registered by the \<open>i\<close>-th call, which exists when
  \<open>i < length (trim_filenames st)\<close>. \<open>startTime\<close> and \<open>endTime\<close> are what \<^verbatim>\<open>parseFloat\<close>
  returns for the values of the two input fields.
\<close>

definition trim_click :: "nat \<Rightarrow> jsnum \<Rightarrow> jsnum \<Rightarrow> page \<Rightarrow> page" where
  "trim_click i startTime endTime st =
     (let currentVideoFilename = trim_filenames st ! i in
      if \<not> truthy currentVideoFilename
      then alert ''Please upload a video first.'' st
      else if isNaN startTime \<or> isNaN endTime \<or> js_lt startTime (Fin 0) \<or> js_lt endTime (Fin 0)
      then alert ''Please enter valid positive numbers for start and end times.'' st
      else if js_ge startTime endTime
      then alert ''Start time must be less than end time.'' st
      else st\<lparr>trim_video_button :=
                 \<lparr>disabled = True,
                  classList = class_add ''loading'' (classList (trim_video_button st)),
                  textContent = ''Trimming...''\<rparr>,
               requests := requests st @
                 [TrimVideo i
                    (JSON_stringify \<lparr>trim_filename = currentVideoFilename,
                                     start_time = startTime, end_time = endTime\<rparr>)]\<rparr>)"

text \<open>
  What the promise chain of a \<^verbatim>\<open>fetch\<close> receives. \<open>Rejected m\<close>: \<^verbatim>\<open>fetch\<close> rejects
  (network error) with an error of message \<open>m\<close>. \<open>Response ok b\<close>: a response arrives with
  \<^verbatim>\<open>response.ok = ok\<close>. Its body is \<open>Unreadable m\<close> when \<^verbatim>\<open>response.json()\<close> rejects,
  or yields \<^verbatim>\<open>null\<close> so that reading a property of it throws, with an error of message
  \<open>m\<close>; otherwise it is \<open>Body d\<close>, with the fields the handlers read: \<open>success\<close> is the
  truthiness of \<^verbatim>\<open>data.success\<close>, the other three are absent (\<open>None\<close>) or strings, the
  types the endpoints are specified with. A body that is a number, a string, a boolean or
  an array has none of the fields and reads as a \<open>Body\<close> without them.
\<close>

record data =
  success :: bool
  message :: "string option"
  filename :: "string option"
  trimmed_filename :: "string option"

datatype body = Unreadable string | Body data

datatype outcome = Rejected string | Response bool body

text \<open>
  The first \<^verbatim>\<open>then\<close> of both chains: the parsed body, or the message of the error thrown
  (\<open>fallback\<close> is \<^verbatim>\<open>'Trimming failed'\<close> or \<^verbatim>\<open>'Upload failed'\<close>).
\<close>

fun then_json :: "string \<Rightarrow> outcome \<Rightarrow> string + data" where
  "then_json fallback (Rejected m) = Inl m"
| "then_json fallback (Response ok (Unreadable m)) = Inl m"
| "then_json fallback (Response ok (Body d)) =
     (if \<not> ok then Inl (or_default (message d) fallback) else Inr d)"

definition trim_then :: "nat \<Rightarrow> data \<Rightarrow> page \<Rightarrow> page" where
  "trim_then i d st =
     (let st1 = alert (or_default (message d) ''Video trimmed successfully!'') st in
      if success d \<and> truthy (trimmed_filename d)
      then st1\<lparr>trim_filenames := (trim_filenames st1)[i := trimmed_filename d],
               video_src := ''/get_video/'' @ to_string (trimmed_filename d),
               video_preview_area := class_add ''active'' (video_preview_area st1)\<rparr>
      else st1)"

definition trim_catch :: "string \<Rightarrow> page \<Rightarrow> page" where
  "trim_catch m st =
     alert (''Trimming failed: '' @ (if m \<noteq> [] then m else ''An unknown error occurred.'')) st"

definition trim_finally :: "page \<Rightarrow> page" where
  "trim_finally st =
     st\<lparr>trim_video_button :=
          \<lparr>disabled = False,
           classList = class_remove ''loading'' (classList (trim_video_button st)),
           textContent = ''Trim Video''\<rparr>\<rparr>"

text \<open>
  The whole chain \<^verbatim>\<open>.then(...).then(...).catch(...).finally(...)\<close> of listener \<open>i\<close>. Once
  the body has been read, the callbacks that change the page run one after the other with
  no other event in between, so the chain is one step of the page.
\<close>

definition trim_settle :: "nat \<Rightarrow> outcome \<Rightarrow> page \<Rightarrow> page" where
  "trim_settle i out st =
     trim_finally
       (case then_json ''Trimming failed'' out of
          Inl m \<Rightarrow> trim_catch m st
        | Inr d \<Rightarrow> trim_then i d st)"

text \<open>
  A click on the button runs every registered click listener, in order of registration,
  on the same input values.
\<close>

definition trim_button_click :: "jsnum \<Rightarrow> jsnum \<Rightarrow> page \<Rightarrow> page" where
  "trim_button_click startTime endTime st =
     fold (\<lambda>i. trim_click i startTime endTime) [0..<length (trim_filenames st)] st"

section \<open>file\_upload.js\<close>

definition initializeFileUpload :: "page \<Rightarrow> page" where
  "initializeFileUpload st =
     (if hasElementById ''video-file-input'' st \<and> hasElementById ''upload-video-button'' st
         \<and> hasElementById ''video-preview-area'' st \<and> hasElementById ''video-preview'' st
         \<and> hasElementById ''video-metadata'' st
      then st\<lparr>upload_video_button := (upload_video_button st)\<lparr>disabled := True\<rparr>,
              upload_filenames := upload_filenames st @ [None]\<rparr>
      else st)"

text \<open>
  The \<^verbatim>\<open>change\<close> listener of the file input; \<open>f\<close> is \<^verbatim>\<open>event.target.files[0]\<close>, the
  file the browser has just put into the input.
\<close>

definition file_change :: "File option \<Rightarrow> page \<Rightarrow> page" where
  "file_change f st =
     (case f of
        Some x \<Rightarrow>
          st\<lparr>video_metadata := Some x,
             video_preview_area := class_add ''active'' (video_preview_area st),
             video_src := [],
             upload_video_button := (upload_video_button st)\<lparr>disabled := False\<rparr>\<rparr>
      | None \<Rightarrow>
          st\<lparr>video_preview_area := class_remove ''active'' (video_preview_area st),
             video_src := [],
             video_metadata := None,
             upload_video_button := (upload_video_button st)\<lparr>disabled := True\<rparr>\<rparr>)"

text \<open>The click listener of the upload button registered by the \<open>i\<close>-th call.\<close>

definition upload_click :: "nat \<Rightarrow> page \<Rightarrow> page" where
  "upload_click i st =
     (case video_file_input st of
        None \<Rightarrow> alert ''Please select a video file to upload.'' st
      | Some f \<Rightarrow>
          st\<lparr>upload_video_button :=
               \<lparr>disabled = True,
                classList = class_add ''loading'' (classList (upload_video_button st)),
                textContent = ''Uploading...''\<rparr>,
             requests := requests st @ [UploadVideo i f]\<rparr>)"

definition upload_then :: "nat \<Rightarrow> data \<Rightarrow> page \<Rightarrow> page" where
  "upload_then i d st =
     (let st1 = alert (or_default (message d) ''File uploaded successfully!'') st in
      if success d \<and> truthy (filename d)
      then initializeVideoTrimming (filename d)
             (st1\<lparr>upload_filenames := (upload_filenames st1)[i := filename d],
                  video_src := ''/get_video/'' @ to_string (filename d),
                  video_preview_area := class_add ''active'' (video_preview_area st1)\<rparr>)
      else st1)"

definition upload_catch :: "string \<Rightarrow> page \<Rightarrow> page" where
  "upload_catch m st =
     alert (''Upload failed: '' @ (if m \<noteq> [] then m else ''An unknown error occurred.'')) st"

definition upload_finally :: "page \<Rightarrow> page" where
  "upload_finally st =
     st\<lparr>upload_video_button :=
          \<lparr>disabled = False,
           classList = class_remove ''loading'' (classList (upload_video_button st)),
           textContent = ''Upload Video''\<rparr>\<rparr>"

definition upload_settle :: "nat \<Rightarrow> outcome \<Rightarrow> page \<Rightarrow> page" where
  "upload_settle i out st =
     upload_finally
       (case then_json ''Upload failed'' out of
          Inl m \<Rightarrow> upload_catch m st
        | Inr d \<Rightarrow> upload_then i d st)"

definition upload_button_click :: "page \<Rightarrow> page" where
  "upload_button_click st =
     fold upload_click [0..<length (upload_filenames st)] st"

section \<open>app.js and the events of a session\<close>

text \<open>
  The \<^verbatim>\<open>DOMContentLoaded\<close> listener, without the tab navigation, which works on elements
  of its own (modelled below).
\<close>

definition app_loaded :: "page \<Rightarrow> page" where
  "app_loaded st = initializeVideoTrimming None (initializeFileUpload st)"

text \<open>
  What can happen to the page after it has loaded: the user picks a file (the browser puts
  it into the input, then the \<^verbatim>\<open>change\<close> listeners run, one per call of
  \<^verbatim>\<open>initializeFileUpload\<close>), the user clicks one of the two buttons with the two time
  inputs reading as given, or the \<^verbatim>\<open>fetch\<close> of a listener settles.
\<close>

datatype event =
    PickFile "File option"
  | ClickUpload
  | ClickTrim jsnum jsnum
  | UploadSettles nat outcome
  | TrimSettles nat outcome

fun fire :: "event \<Rightarrow> page \<Rightarrow> page" where
  "fire (PickFile f) st =
     fold (\<lambda>i. file_change f) [0..<length (upload_filenames st)] (st\<lparr>video_file_input := f\<rparr>)"
| "fire ClickUpload st = upload_button_click st"
| "fire (ClickTrim startTime endTime) st = trim_button_click startTime endTime st"
| "fire (UploadSettles i out) st = upload_settle i out st"
| "fire (TrimSettles i out) st = trim_settle i out st"

definition run :: "event list \<Rightarrow> page \<Rightarrow> page" where
  "run evs st = fold fire evs st"

section \<open>tab\_navigation.js\<close>

text \<open>
  The document as the tab navigation sees it: its elements in document order, each with
  its \<^verbatim>\<open>id\<close> attribute, its class list, its \<^verbatim>\<open>data-target\<close> attribute and its parent
  element (\<open>None\<close> for an element without a parent element). An element is referred to by
  its position; in document order a parent comes before its children. The two
  \<^verbatim>\<open>NodeList\<close>s that \<^verbatim>\<open>querySelectorAll\<close> returned when the module was initialised are
  kept beside the document.
\<close>

record element =
  elem_id :: "string option"
  elem_classes :: "string list"
  data_target :: "string option"
  parent :: "nat option"

record tabs =
  doc :: "element list"
  navTabs :: "nat list"
  tabContents :: "nat list"

text \<open>\<^verbatim>\<open>querySelectorAll('.c')\<close>: the elements of class \<open>c\<close>, in document order.\<close>

definition querySelectorAll :: "string \<Rightarrow> element list \<Rightarrow> nat list" where
  "querySelectorAll c d = filter (\<lambda>i. c \<in> set (elem_classes (d ! i))) [0..<length d]"

text \<open>
  \<^verbatim>\<open>getElementById(s)\<close>: the first element whose id is \<open>s\<close>; the empty string finds
  nothing.
\<close>

definition getElementById :: "string \<Rightarrow> element list \<Rightarrow> nat option" where
  "getElementById s d =
     (if s = [] then None else find (\<lambda>i. elem_id (d ! i) = Some s) [0..<length d])"

definition add_active :: "nat \<Rightarrow> element list \<Rightarrow> element list" where
  "add_active i d = d[i := (d ! i)\<lparr>elem_classes := class_add ''active'' (elem_classes (d ! i))\<rparr>]"

definition remove_active :: "nat \<Rightarrow> element list \<Rightarrow> element list" where
  "remove_active i d =
     d[i := (d ! i)\<lparr>elem_classes := class_remove ''active'' (elem_classes (d ! i))\<rparr>]"

text \<open>
  Reading the \<^verbatim>\<open>data-target\<close> of element \<open>t\<close> and marking the element of that id
  active, if there is one. A missing attribute reads as \<^verbatim>\<open>null\<close>, which
  \<^verbatim>\<open>getElementById\<close> receives as the string \<^verbatim>\<open>"null"\<close>.
\<close>

definition show_target :: "nat \<Rightarrow> element list \<Rightarrow> element list" where
  "show_target t d =
     (let targetId = data_target (d ! t) in
      case getElementById (to_string targetId) d of
        None \<Rightarrow> d
      | Some targetContent \<Rightarrow> add_active targetContent d)"

text \<open>
  The click listener that \<^verbatim>\<open>navTabs.forEach\<close> registers on the nav tab at position \<open>t\<close>.
\<close>

definition tab_click :: "nat \<Rightarrow> tabs \<Rightarrow> tabs" where
  "tab_click t st =
     (let d1 = fold remove_active (navTabs st) (doc st);
          d2 = fold remove_active (tabContents st) d1;
          d3 = add_active t d2
      in st\<lparr>doc := show_target t d3\<rparr>)"

definition initializeTabNavigation :: "element list \<Rightarrow> tabs" where
  "initializeTabNavigation d =
     (let tabs = querySelectorAll ''nav-tab'' d;
          contents = querySelectorAll ''tab-content'' d
      in case find (\<lambda>i. ''active'' \<in> set (elem_classes (d ! i))) tabs of
           Some defaultTab \<Rightarrow>
             \<lparr>doc = show_target defaultTab d, navTabs = tabs, tabContents = contents\<rparr>
         | None \<Rightarrow>
             (case tabs of
                [] \<Rightarrow> \<lparr>doc = d, navTabs = tabs, tabContents = contents\<rparr>
              | first # rest \<Rightarrow>
                  \<lparr>doc = show_target first (add_active first d),
                   navTabs = tabs, tabContents = contents\<rparr>))"

text \<open>
  The path of a click event: the element \<open>x\<close> that was clicked, its parent, the parent of
  that, and so on up to the root. A parent entry that does not come before the element in
  document order is no parent.
\<close>

function path_to_root :: "element list \<Rightarrow> nat \<Rightarrow> nat list" where
  "path_to_root d x =
     (if x < length d
      then x # (case parent (d ! x) of
                  None \<Rightarrow> []
                | Some p \<Rightarrow> if p < x then path_to_root d p else [])
      else [])"
  by pat_completeness auto
termination
  by (relation "measure snd") auto

declare path_to_root.simps [simp del]

text \<open>
  The listeners that a click on element \<open>x\<close> runs: the event bubbles, and no listener stops
  it, so the listener of every nav tab on the path runs, the innermost first.
\<close>

definition listeners_on_path :: "nat \<Rightarrow> tabs \<Rightarrow> nat list" where
  "listeners_on_path x st = filter (\<lambda>t. t \<in> set (navTabs st)) (path_to_root (doc st) x)"

definition click :: "nat \<Rightarrow> tabs \<Rightarrow> tabs" where
  "click x st = fold tab_click (listeners_on_path x st) st"

text \<open>
  The tab navigation after the page with document \<open>d\<close> has loaded and the elements at the
  positions \<open>xs\<close> have been clicked, in this order.
\<close>

definition tab_session :: "element list \<Rightarrow> nat list \<Rightarrow> tabs" where
  "tab_session d xs = fold click xs (initializeTabNavigation d)"

section \<open>The Asset Store of the specification\<close>

text \<open>
  Modelled from the spec: the Asset Store (sections 3 and 4.1 of the specification). The
  repository has no implementation of it: the front end only names the endpoints
  \<^verbatim>\<open>/upload_video\<close>, \<^verbatim>\<open>/trim_video\<close> and \<^verbatim>\<open>/get_video/<name>\<close>. An asset is the record
  of section 3; the store maps an identifier to the asset and its bytes.
\<close>

datatype kind = Video | Image

record asset =
  asset_id :: nat
  asset_kind :: kind
  original_name :: string
  size_bytes :: nat
  content_type :: string
  derived_from :: "nat option"

datatype store_error = StorageError | ValidationError | NotFoundError

type_synonym store = "(nat \<times> asset \<times> 8 word list) list"

text \<open>
  Modelled from the spec: the configuration surface of section 6 that \<^verbatim>\<open>put\<close> reads, the
  upload size limit and the accepted content types.
\<close>

record store_config =
  max_size_bytes :: nat
  accepted_types :: "string list"

text \<open>
  Modelled from the spec: "a newly generated id (collision-free)". The identifier is
  opaque; here it is the successor of the largest identifier in use.
\<close>

definition fresh_id :: "store \<Rightarrow> nat" where
  "fresh_id st = Suc (fold max (map fst st) 0)"

text \<open>
  Modelled from the spec: \<^verbatim>\<open>put(bytes, kind, original_name, content_type) -> Asset\<close>
  "writes bytes durably under a newly generated id, returns the Asset record. Fails with
  StorageError on I/O failure (disk full, permission denied) or ValidationError if size
  exceeds a configured maximum or content\_type is not an accepted media type."
  \<open>io_ok\<close> says whether the write to disk goes through. A failure leaves the store as it
  was.
\<close>

definition put ::
  "store_config \<Rightarrow> bool \<Rightarrow> store \<Rightarrow> 8 word list \<Rightarrow> kind \<Rightarrow> string \<Rightarrow> string
     \<Rightarrow> store_error + (asset \<times> store)" where
  "put cfg io_ok st bytes k name ctype =
     (if max_size_bytes cfg < length bytes then Inl ValidationError
      else if ctype \<notin> set (accepted_types cfg) then Inl ValidationError
      else if \<not> io_ok then Inl StorageError
      else
        (let a = \<lparr>asset_id = fresh_id st, asset_kind = k, original_name = name,
                  size_bytes = length bytes, content_type = ctype, derived_from = None\<rparr>
         in Inr (a, (asset_id a, a, bytes) # st)))"

text \<open>
  Modelled from the spec: \<^verbatim>\<open>get(id) -> bytes_stream\<close> "returns a readable byte stream for
  the asset; fails with NotFoundError if id is unknown".
\<close>

definition get :: "store \<Rightarrow> nat \<Rightarrow> store_error + 8 word list" where
  "get st i = (case map_of st i of None \<Rightarrow> Inl NotFoundError | Some (a, bytes) \<Rightarrow> Inr bytes)"

section \<open>Notions of the specification used to state the properties\<close>

text \<open>
  Modelled from the spec: the validation of the Trim Engine (section 4.2), which the
  repository does not implement. The preconditions are \<open>0 \<le> start < end \<le> duration\<close>, and
  a validation error is to name which of four bounds was violated: non-numeric, negative,
  start not before end, end beyond duration. They are checked in the order the
  specification lists them. The messages of the click listener are compared with these
  bounds.
\<close>

datatype bound = NonNumeric | Negative | StartNotBeforeEnd | EndBeyondDuration

definition spec_violated_bound :: "jsnum \<Rightarrow> jsnum \<Rightarrow> jsnum \<Rightarrow> bound option" where
  "spec_violated_bound duration startTime endTime =
     (if isNaN startTime \<or> isNaN endTime then Some NonNumeric
      else if js_lt startTime (Fin 0) \<or> js_lt endTime (Fin 0) then Some Negative
      else if js_ge startTime endTime then Some StartNotBeforeEnd
      else if js_lt duration endTime then Some EndBeyondDuration
      else None)"

text \<open>
  Modelled from the spec: the failures of \<^verbatim>\<open>trim\<close> (sections 4.2 and 7). A validation
  error says that the source is not a video or names the bound that was violated; a
  failure of \<^verbatim>\<open>put\<close> is passed on.
\<close>

datatype violation = NotAVideo | OutOfBounds bound

datatype trim_error =
    TrimNotFoundError
  | TrimValidationError violation
  | UnsupportedFormatError
  | ProcessingError
  | PutFailed store_error

text \<open>
  Modelled from the spec: \<^verbatim>\<open>trim(source_id, start_seconds, end_seconds) -> Asset\<close> of the
  Trim Engine (section 4.2), which the repository does not implement: the front end only
  sends the request to \<^verbatim>\<open>/trim_video\<close>. "Preconditions: source\_id must resolve to a video
  asset; 0 <= start\_seconds < end\_seconds <= source\_duration. Violations fail with
  ValidationError naming which bound was violated." The duration is found "by probing the
  container/stream metadata", and the output is a "new Asset with derived\_from =
  source\_id, written via Asset Store put". The media toolkit is a parameter: \<open>probe\<close>
  gives the duration of a container in seconds, or nothing for one it cannot parse
  (UnsupportedFormatError); \<open>cut_range\<close> gives the bytes of the sub-range, or nothing when it
  aborts (ProcessingError). A failure returns no asset and no store: the store stays as it
  was.
\<close>

definition trim ::
  "store_config \<Rightarrow> bool \<Rightarrow> (8 word list \<Rightarrow> real option)
     \<Rightarrow> (8 word list \<Rightarrow> real \<Rightarrow> real \<Rightarrow> 8 word list option)
     \<Rightarrow> store \<Rightarrow> nat \<Rightarrow> jsnum \<Rightarrow> jsnum \<Rightarrow> trim_error + (asset \<times> store)" where
  "trim cfg io_ok probe cut_range st source_id start_seconds end_seconds =
     (case map_of st source_id of
        None \<Rightarrow> Inl TrimNotFoundError
      | Some (source, bytes) \<Rightarrow>
          if asset_kind source \<noteq> Video then Inl (TrimValidationError NotAVideo)
          else
            (case probe bytes of
               None \<Rightarrow> Inl UnsupportedFormatError
             | Some source_duration \<Rightarrow>
                 (case spec_violated_bound (Fin source_duration) start_seconds end_seconds of
                    Some b \<Rightarrow> Inl (TrimValidationError (OutOfBounds b))
                  | None \<Rightarrow>
                      (case (start_seconds, end_seconds) of
                         (Fin s, Fin e) \<Rightarrow>
                           (case cut_range bytes s e of
                              None \<Rightarrow> Inl ProcessingError
                            | Some out \<Rightarrow>
                                (case put cfg io_ok st out Video (original_name source)
                                        (content_type source) of
                                   Inl err \<Rightarrow> Inl (PutFailed err)
                                 | Inr (a, st') \<Rightarrow>
                                     Inr (a\<lparr>derived_from := Some source_id\<rparr>,
                                          (asset_id a, a\<lparr>derived_from := Some source_id\<rparr>, out)
                                            # st)))
                       | _ \<Rightarrow> Inl ProcessingError))))"

text \<open>
  A request that failed: the \<^verbatim>\<open>fetch\<close> was rejected, the body could not be read, the
  response was not ok, \<^verbatim>\<open>success\<close> was false, or the filename field (\<open>field\<close> selects
  \<^verbatim>\<open>filename\<close> or \<^verbatim>\<open>trimmed_filename\<close>) was missing or empty.
\<close>

fun request_failed :: "(data \<Rightarrow> string option) \<Rightarrow> outcome \<Rightarrow> bool" where
  "request_failed field (Rejected m) = True"
| "request_failed field (Response ok (Unreadable m)) = True"
| "request_failed field (Response ok (Body d)) =
     (if ok then (if success d then \<not> truthy (field d) else True) else True)"

text \<open>
  The events that are not the settling of a request that succeeded: all picks and clicks,
  and every settling of a request that failed.
\<close>

fun no_success :: "event \<Rightarrow> bool" where
  "no_success (PickFile f) = True"
| "no_success ClickUpload = True"
| "no_success (ClickTrim startTime endTime) = True"
| "no_success (UploadSettles i out) = request_failed filename out"
| "no_success (TrimSettles i out) = request_failed trimmed_filename out"

section \<open>Example pages and sessions\<close>

text \<open>The page as the server sends it, with every element the two modules ask for.\<close>

definition served_page :: page where
  "served_page =
     \<lparr>ids = [''start-second'', ''end-second'', ''trim-video-button'', ''video-preview-area'',
             ''video-preview'', ''video-file-input'', ''upload-video-button'',
             ''video-metadata''],
      start_second_disabled = False, end_second_disabled = False,
      trim_video_button = \<lparr>disabled = False, classList = [], textContent = ''Trim Video''\<rparr>,
      upload_video_button =
        \<lparr>disabled = False, classList = [], textContent = ''Upload Video''\<rparr>,
      video_preview_area = [], video_src = [], video_duration = NaN,
      video_metadata = None, video_file_input = None,
      upload_filenames = [], trim_filenames = [], alerts = [], requests = []\<rparr>"

text \<open>
  The page after it has loaded and the ten-second video \<^verbatim>\<open>a.mp4\<close> has been uploaded:
  listener 0 of the trim button is the one registered on load, listener 1 the one
  registered by the upload.
\<close>

definition uploaded_page :: page where
  "uploaded_page =
     \<lparr>ids = [''start-second'', ''end-second'', ''trim-video-button'', ''video-preview-area'',
             ''video-preview'', ''video-file-input'', ''upload-video-button'',
             ''video-metadata''],
      start_second_disabled = False, end_second_disabled = False,
      trim_video_button = \<lparr>disabled = False, classList = [], textContent = ''Trim Video''\<rparr>,
      upload_video_button =
        \<lparr>disabled = False, classList = [], textContent = ''Upload Video''\<rparr>,
      video_preview_area = [''active''], video_src = ''/get_video/a.mp4'',
      video_duration = Fin 10,
      video_metadata = Some \<lparr>file_name = ''a.mp4'', file_type = ''video/mp4'', file_size = 4096\<rparr>,
      video_file_input = Some \<lparr>file_name = ''a.mp4'', file_type = ''video/mp4'', file_size = 4096\<rparr>,
      upload_filenames = [Some ''a.mp4''], trim_filenames = [None, Some ''a.mp4''],
      alerts = [], requests = []\<rparr>"


definition video_file :: "string \<Rightarrow> File" where
  "video_file name = \<lparr>file_name = name, file_type = ''video/mp4'', file_size = 4096\<rparr>"

text \<open>Responses as the endpoint table of the specification (section 6) gives them.\<close>

definition uploaded_as :: "string \<Rightarrow> outcome" where
  "uploaded_as name =
     Response True
       (Body \<lparr>success = True, message = None, filename = Some name, trimmed_filename = None\<rparr>)"

definition trimmed_as :: "string \<Rightarrow> outcome" where
  "trimmed_as name =
     Response True
       (Body \<lparr>success = True, message = Some ''Video trimmed'', filename = None,
              trimmed_filename = Some name\<rparr>)"

definition refused :: "string \<Rightarrow> outcome" where
  "refused msg =
     Response False
       (Body \<lparr>success = False, message = Some msg, filename = None, trimmed_filename = None\<rparr>)"

text \<open>
  A session: two videos are uploaded one after the other, the trim button is clicked with
  the inputs reading 0 and 1, the server refuses the request of listener 1 and answers
  the request of listener 2 with the derived asset \<^verbatim>\<open>b_trim.mp4\<close>.
\<close>

definition two_uploads_one_trim :: "event list" where
  "two_uploads_one_trim =
     [PickFile (Some (video_file ''a.mp4'')), ClickUpload, UploadSettles 0 (uploaded_as ''a.mp4''),
      PickFile (Some (video_file ''b.mp4'')), ClickUpload, UploadSettles 0 (uploaded_as ''b.mp4''),
      ClickTrim (Fin 0) (Fin 1),
      TrimSettles 1 (refused ''Trimming is busy''),
      TrimSettles 2 (trimmed_as ''b_trim.mp4'')]"

text \<open>
  A store that holds one video, and a media toolkit for which every container lasts ten
  seconds and every cut gives the bytes back.
\<close>

definition holiday_store :: store where
  "holiday_store =
     [(1, \<lparr>asset_id = 1, asset_kind = Video, original_name = ''holiday.mp4'', size_bytes = 3,
            content_type = ''video/mp4'', derived_from = None\<rparr>, [1, 2, 3])]"

definition ten_seconds :: "8 word list \<Rightarrow> real option" where
  "ten_seconds bytes = Some 10"

definition whole_clip :: "8 word list \<Rightarrow> real \<Rightarrow> real \<Rightarrow> 8 word list option" where
  "whole_clip bytes s e = Some bytes"

text \<open>
  A document with two nav tabs and their two tab contents, the first tab active, and a
  third tab whose target is missing.
\<close>

definition tabbed_document :: "element list" where
  "tabbed_document =
     [\<lparr>elem_id = None, elem_classes = [''nav-tab'', ''active''],
       data_target = Some ''upload-tab-content'', parent = None\<rparr>,
      \<lparr>elem_id = None, elem_classes = [''nav-tab''], data_target = Some ''edit-tab-content'',
       parent = None\<rparr>,
      \<lparr>elem_id = None, elem_classes = [''nav-tab''], data_target = Some ''export-tab-content'',
       parent = None\<rparr>,
      \<lparr>elem_id = Some ''upload-tab-content'', elem_classes = [''tab-content''],
       data_target = None, parent = None\<rparr>,
      \<lparr>elem_id = Some ''edit-tab-content'', elem_classes = [''tab-content''],
       data_target = None, parent = None\<rparr>]"

text \<open>A document whose two nav tabs name each other as their targets.\<close>

definition crossed_tabs :: "element list" where
  "crossed_tabs =
     [\<lparr>elem_id = Some ''first-tab'', elem_classes = [''nav-tab'', ''active''],
       data_target = Some ''second-tab'', parent = None\<rparr>,
      \<lparr>elem_id = Some ''second-tab'', elem_classes = [''nav-tab''],
       data_target = Some ''first-tab'', parent = None\<rparr>]"

text \<open>
  A document with a nav tab inside another nav tab, each with a tab content of its own.
\<close>

definition nested_tabs :: "element list" where
  "nested_tabs =
     [\<lparr>elem_id = None, elem_classes = [''nav-tab'', ''active''],
       data_target = Some ''outer-content'', parent = None\<rparr>,
      \<lparr>elem_id = None, elem_classes = [''nav-tab''], data_target = Some ''inner-content'',
       parent = Some 0\<rparr>,
      \<lparr>elem_id = Some ''outer-content'', elem_classes = [''tab-content''],
       data_target = None, parent = None\<rparr>,
      \<lparr>elem_id = Some ''inner-content'', elem_classes = [''tab-content''],
       data_target = None, parent = None\<rparr>]"

section \<open>The example page is one the code reaches\<close>

text \<open>
  Loading the served page, picking \<^verbatim>\<open>a.mp4\<close>, clicking the upload button and receiving
  the server's answer leads to \<open>uploaded_page\<close>, once the browser has read the duration of
  the video; the example leaves out the alert and the request of the upload.
\<close>

lemma uploaded_page_reached:
  "run [PickFile (Some (video_file ''a.mp4'')), ClickUpload, UploadSettles 0 (uploaded_as ''a.mp4'')]
       (app_loaded served_page) =
     uploaded_page
       \<lparr>video_duration := NaN,
        alerts := [''File uploaded successfully!''],
        requests := [UploadVideo 0 (video_file ''a.mp4'')]\<rparr>"
  by (simp add: served_page_def uploaded_page_def video_file_def uploaded_as_def run_def
      app_loaded_def initializeVideoTrimming_def initializeFileUpload_def hasElementById_def
      file_change_def upload_button_click_def upload_click_def upload_settle_def
      upload_then_def upload_finally_def alert_def class_add_def class_remove_def Let_def)

section \<open>Frame lemmas: what the listeners leave alone\<close>

lemma trim_click_filenames:
  "trim_filenames (trim_click i s e st) = trim_filenames st"
  "upload_filenames (trim_click i s e st) = upload_filenames st"
  by (simp_all add: trim_click_def alert_def Let_def)

lemma fold_trim_click_filenames:
  "trim_filenames (fold (\<lambda>i. trim_click i s e) xs st) = trim_filenames st \<and>
   upload_filenames (fold (\<lambda>i. trim_click i s e) xs st) = upload_filenames st"
  by (induction xs arbitrary: st) (simp_all add: trim_click_filenames)

lemma upload_click_filenames:
  "trim_filenames (upload_click i st) = trim_filenames st"
  "upload_filenames (upload_click i st) = upload_filenames st"
  by (simp_all add: upload_click_def alert_def split: option.splits)

lemma fold_upload_click_filenames:
  "trim_filenames (fold upload_click xs st) = trim_filenames st \<and>
   upload_filenames (fold upload_click xs st) = upload_filenames st"
  by (induction xs arbitrary: st) (simp_all add: upload_click_filenames)

lemma file_change_filenames:
  "trim_filenames (file_change f st) = trim_filenames st"
  "upload_filenames (file_change f st) = upload_filenames st"
  by (simp_all add: file_change_def split: option.splits)

lemma fold_file_change_filenames:
  "trim_filenames (fold (\<lambda>i. file_change f) xs st) = trim_filenames st \<and>
   upload_filenames (fold (\<lambda>i. file_change f) xs st) = upload_filenames st"
  by (induction xs arbitrary: st) (simp_all add: file_change_filenames)

text \<open>A failed request never reaches the branch that stores a filename.\<close>

lemma then_json_failed:
  "request_failed field out \<Longrightarrow> then_json fb out = Inr d \<Longrightarrow> \<not> (success d \<and> truthy (field d))"
  by (induction fb out rule: then_json.induct) (auto split: if_splits)

lemma trim_settle_failed:
  assumes "request_failed trimmed_filename out"
  shows "trim_filenames (trim_settle i out st) = trim_filenames st"
    and "upload_filenames (trim_settle i out st) = upload_filenames st"
  using then_json_failed[OF assms, of "''Trimming failed''"]
  by (auto simp add: trim_settle_def trim_finally_def trim_catch_def trim_then_def alert_def
      Let_def split: sum.splits)

lemma upload_settle_failed:
  assumes "request_failed filename out"
  shows "trim_filenames (upload_settle i out st) = trim_filenames st"
    and "upload_filenames (upload_settle i out st) = upload_filenames st"
  using then_json_failed[OF assms, of "''Upload failed''"]
  by (auto simp add: upload_settle_def upload_finally_def upload_catch_def upload_then_def
      alert_def Let_def split: sum.splits)

text \<open>A listener that has a filename and reads times with \<open>0 \<le> start < end\<close> sends them.\<close>

lemma trim_click_sends:
  assumes "truthy (trim_filenames st ! i)"
    and "\<not> isNaN s" and "\<not> isNaN e" and "\<not> js_lt s (Fin 0)" and "\<not> js_lt e (Fin 0)"
    and "js_lt s e"
  shows "trim_click i s e st =
     st\<lparr>trim_video_button :=
          \<lparr>disabled = True,
           classList = class_add ''loading'' (classList (trim_video_button st)),
           textContent = ''Trimming...''\<rparr>,
        requests := requests st @
          [TrimVideo i
             (JSON_stringify \<lparr>trim_filename = trim_filenames st ! i,
                              start_time = s, end_time = e\<rparr>)]\<rparr>"
  using assms by (simp add: trim_click_def Let_def)

section \<open>Validation in the trim click listener\<close>

text \<open>
  Claim C8. A click listener of the trim button that has no video filename (none was
  passed when it was registered and no trim of its own has succeeded) shows the alert
  "Please upload a video first." and returns: whatever the two inputs read, it validates
  nothing, sends no request and leaves the filenames, the preview and the buttons as they
  were. The only change to the page is the alert.
\<close>

theorem trim_click_without_filename:
  assumes "i < length (trim_filenames st)" and "\<not> truthy (trim_filenames st ! i)"
  shows "trim_click i startTime endTime st =
           st\<lparr>alerts := alerts st @ [''Please upload a video first.'']\<rparr>"
  using assms by (simp add: trim_click_def alert_def)

theorem trim_click_without_filename_witness:
  "0 < length (trim_filenames uploaded_page) \<and> \<not> truthy (trim_filenames uploaded_page ! 0)
   \<and> trim_click 0 (Fin 2) (Fin 5) uploaded_page =
       uploaded_page\<lparr>alerts := [''Please upload a video first.'']\<rparr>"
  using trim_click_without_filename [where i = 0 and st = uploaded_page
      and startTime = "Fin 2" and endTime = "Fin 5"]
  by (simp add: uploaded_page_def)

text \<open>
  Claim C1, as stated, fails: with the video \<^verbatim>\<open>a.mp4\<close> uploaded and the inputs reading
  \<open>-1\<close> and \<open>-2\<close> the start is not less than the end, yet the listener does not show
  "Start time must be less than end time.": the check for negative values comes first and
  shows its own message.
\<close>

theorem trim_click_negative_times_counterexample:
  "js_ge (Fin (- 1)) (Fin (- 2)) \<and> truthy (trim_filenames uploaded_page ! 1)
   \<and> alerts (trim_click 1 (Fin (- 1)) (Fin (- 2)) uploaded_page) =
       [''Please enter valid positive numbers for start and end times.'']
   \<and> alerts (trim_click 1 (Fin (- 1)) (Fin (- 2)) uploaded_page) \<noteq>
       [''Start time must be less than end time.'']"
  by (simp add: trim_click_def alert_def uploaded_page_def Let_def)

text \<open>
  Claim C1, amended. For every click on the trim button with the parsed start time greater
  than or equal to the parsed end time, a click listener shows one alert and returns; it
  sends no \<^verbatim>\<open>/trim_video\<close> request and changes nothing else on the page. The alert is
  "Start time must be less than end time." when the listener has a filename and both
  times are non-negative, "Please enter valid positive numbers for start and end times."
  when it has a filename and one of the times is negative, and "Please upload a video
  first." when it has no filename.
\<close>

theorem trim_click_start_not_before_end:
  assumes "i < length (trim_filenames st)" and "js_ge startTime endTime"
  shows "trim_click i startTime endTime st =
     st\<lparr>alerts := alerts st @
        [if \<not> truthy (trim_filenames st ! i) then ''Please upload a video first.''
         else if js_lt startTime (Fin 0) \<or> js_lt endTime (Fin 0)
         then ''Please enter valid positive numbers for start and end times.''
         else ''Start time must be less than end time.'']\<rparr>"
  using assms by (auto simp add: trim_click_def alert_def split: if_splits)

theorem trim_click_start_not_before_end_witness:
  "1 < length (trim_filenames uploaded_page) \<and> js_ge (Fin 6) (Fin 4)
   \<and> trim_click 1 (Fin 6) (Fin 4) uploaded_page =
       uploaded_page\<lparr>alerts := [''Start time must be less than end time.'']\<rparr>"
  using trim_click_start_not_before_end [where i = 1 and st = uploaded_page
      and startTime = "Fin 6" and endTime = "Fin 4"]
  by (simp add: uploaded_page_def)

text \<open>
  Claim C5, as stated, fails: the message does not name the bound. A start time that is not
  a number and a start time of \<open>-1\<close> violate different bounds of the specification, and the
  listener shows the same message for both.
\<close>

theorem trim_click_message_counterexample:
  "spec_violated_bound (Fin 10) NaN (Fin 5) = Some NonNumeric
   \<and> spec_violated_bound (Fin 10) (Fin (- 1)) (Fin 5) = Some Negative
   \<and> alerts (trim_click 1 NaN (Fin 5) uploaded_page) =
       [''Please enter valid positive numbers for start and end times.'']
   \<and> alerts (trim_click 1 (Fin (- 1)) (Fin 5) uploaded_page) =
       [''Please enter valid positive numbers for start and end times.'']"
  by (simp add: spec_violated_bound_def trim_click_def alert_def uploaded_page_def Let_def)

text \<open>
  Claim C5, amended. For every trim attempt of a listener that has a filename, where the
  start or the end time is not a number or is negative, the listener shows the one alert
  "Please enter valid positive numbers for start and end times." and returns. The message
  is the same for a value that is not a number and for a negative one, and names neither
  the bound nor the field. No \<^verbatim>\<open>/trim_video\<close> request is sent and nothing else on the page
  changes.
\<close>

theorem trim_click_invalid_numbers:
  assumes "i < length (trim_filenames st)" and "truthy (trim_filenames st ! i)"
    and "isNaN startTime \<or> isNaN endTime \<or> js_lt startTime (Fin 0) \<or> js_lt endTime (Fin 0)"
  shows "trim_click i startTime endTime st =
     st\<lparr>alerts := alerts st @
        [''Please enter valid positive numbers for start and end times.'']\<rparr>"
  using assms by (simp add: trim_click_def alert_def Let_def)

theorem trim_click_invalid_numbers_witness:
  "1 < length (trim_filenames uploaded_page) \<and> truthy (trim_filenames uploaded_page ! 1)
   \<and> isNaN NaN
   \<and> trim_click 1 NaN (Fin 5) uploaded_page =
       uploaded_page\<lparr>alerts :=
         [''Please enter valid positive numbers for start and end times.'']\<rparr>"
  using trim_click_invalid_numbers [where i = 1 and st = uploaded_page
      and startTime = NaN and endTime = "Fin 5"]
  by (simp add: uploaded_page_def)

section \<open>Settled requests\<close>

text \<open>
  Claim C3. The variables \<^verbatim>\<open>currentVideoFilename\<close> of the page (those of the upload
  module and those of the trim listeners) change only when an upload or a trim succeeds.
  Every other event leaves each of them with the value it had: picking a file, a click on
  either button, and the settling of any request that failed, be it rejected by the
  network, answered with a response that is not ok or cannot be read, answered with
  \<^verbatim>\<open>success\<close> false, or answered without a filename.
\<close>

theorem current_filename_changes_only_on_success:
  assumes "no_success ev"
  shows "trim_filenames (fire ev st) = trim_filenames st
     \<and> upload_filenames (fire ev st) = upload_filenames st"
proof (cases ev)
  case (PickFile f)
  then show ?thesis by (simp add: fold_file_change_filenames)
next
  case ClickUpload
  then show ?thesis by (simp add: upload_button_click_def fold_upload_click_filenames)
next
  case (ClickTrim s e)
  then show ?thesis by (simp add: trim_button_click_def fold_trim_click_filenames)
next
  case (UploadSettles i out)
  then show ?thesis using assms by (simp add: upload_settle_failed)
next
  case (TrimSettles i out)
  then show ?thesis using assms by (simp add: trim_settle_failed)
qed

theorem current_filename_changes_only_on_success_witness:
  "no_success (TrimSettles 1 (refused ''Video not found''))
   \<and> trim_filenames (fire (TrimSettles 1 (refused ''Video not found'')) uploaded_page) =
       [None, Some ''a.mp4'']
   \<and> upload_filenames (fire (TrimSettles 1 (refused ''Video not found'')) uploaded_page) =
       [Some ''a.mp4'']"
  using current_filename_changes_only_on_success
    [where ev = "TrimSettles 1 (refused ''Video not found'')" and st = uploaded_page]
  by (simp add: refused_def uploaded_page_def)

text \<open>
  Claim C10. When the promise chain of a trim request or of an upload request has settled,
  whatever the outcome (a rejected \<^verbatim>\<open>fetch\<close>, an unreadable body, a response that is not
  ok, one without success or filename, or a success), the button that sent the request is
  enabled, has lost the class \<^verbatim>\<open>loading\<close> and shows its label again, "Trim Video" or
  "Upload Video".
\<close>

theorem button_reset_when_settled:
  "\<not> disabled (trim_video_button (trim_settle i out st))
   \<and> ''loading'' \<notin> set (classList (trim_video_button (trim_settle i out st)))
   \<and> textContent (trim_video_button (trim_settle i out st)) = ''Trim Video''
   \<and> \<not> disabled (upload_video_button (upload_settle i out st))
   \<and> ''loading'' \<notin> set (classList (upload_video_button (upload_settle i out st)))
   \<and> textContent (upload_video_button (upload_settle i out st)) = ''Upload Video''"
  by (simp add: trim_settle_def trim_finally_def upload_settle_def upload_finally_def
      class_remove_def)

theorem button_reset_when_settled_witness:
  "trim_video_button (trim_click 1 (Fin 2) (Fin 5) uploaded_page) =
     \<lparr>disabled = True, classList = [''loading''], textContent = ''Trimming...''\<rparr>
   \<and> trim_video_button
       (trim_settle 1 (Rejected ''Failed to fetch'') (trim_click 1 (Fin 2) (Fin 5) uploaded_page)) =
     \<lparr>disabled = False, classList = [], textContent = ''Trim Video''\<rparr>"
  using button_reset_when_settled [where i = 1 and out = "Rejected ''Failed to fetch''"
      and st = "trim_click 1 (Fin 2) (Fin 5) uploaded_page"]
  by (simp add: trim_settle_def trim_finally_def trim_catch_def alert_def trim_click_def
      uploaded_page_def class_add_def class_remove_def Let_def)




section \<open>Several listeners on the trim button\<close>

text \<open>
  Claim C2 at the session \<open>two_uploads_one_trim\<close>. Every call of
  \<^verbatim>\<open>initializeVideoTrimming\<close> that finds its elements adds a click listener with a filename
  of its own, and no listener is ever removed: \<^verbatim>\<open>app.js\<close> calls it once on load, without a
  filename, and the upload handler calls it again after every successful upload. In the
  session two videos are uploaded and a trim of the second succeeds with the derived asset
  \<^verbatim>\<open>b_trim.mp4\<close>: the listener whose request it was holds \<^verbatim>\<open>b_trim.mp4\<close> and the preview
  shows it. The next click on the trim button runs three listeners: the one registered on
  load shows "Please upload a video first.", the one registered by the first upload sends
  a request whose source is \<^verbatim>\<open>a.mp4\<close>, not the derived asset, and the one registered by the
  second upload sends a request whose source is \<^verbatim>\<open>b_trim.mp4\<close>.
\<close>

theorem earlier_trim_listeners_stay:
  "trim_filenames (run two_uploads_one_trim (app_loaded served_page)) =
     [None, Some ''a.mp4'', Some ''b_trim.mp4'']
   \<and> video_src (run two_uploads_one_trim (app_loaded served_page)) = ''/get_video/b_trim.mp4''
   \<and> requests (fire (ClickTrim (Fin 0) (Fin 1))
        (run two_uploads_one_trim (app_loaded served_page))) =
       requests (run two_uploads_one_trim (app_loaded served_page)) @
         [TrimVideo 1 \<lparr>json_filename = Some ''a.mp4'', json_start_time = Some 0,
                       json_end_time = Some 1\<rparr>,
          TrimVideo 2 \<lparr>json_filename = Some ''b_trim.mp4'', json_start_time = Some 0,
                       json_end_time = Some 1\<rparr>]
   \<and> alerts (fire (ClickTrim (Fin 0) (Fin 1))
        (run two_uploads_one_trim (app_loaded served_page))) =
       alerts (run two_uploads_one_trim (app_loaded served_page)) @
         [''Please upload a video first.'']"
  by (simp add: two_uploads_one_trim_def served_page_def video_file_def uploaded_as_def
      trimmed_as_def refused_def run_def app_loaded_def initializeVideoTrimming_def
      initializeFileUpload_def hasElementById_def file_change_def upload_button_click_def
      upload_click_def upload_settle_def upload_then_def upload_catch_def upload_finally_def
      trim_button_click_def trim_click_def trim_settle_def trim_then_def trim_catch_def
      trim_finally_def alert_def class_add_def class_remove_def JSON_stringify_def Let_def
      upt_rec)

section \<open>Tab navigation\<close>

lemma length_add_active [simp]: "length (add_active i d) = length d"
  by (simp add: add_active_def)

lemma length_remove_active [simp]: "length (remove_active i d) = length d"
  by (simp add: remove_active_def)

lemma length_fold_remove_active [simp]: "length (fold remove_active xs d) = length d"
  by (induction xs arbitrary: d) simp_all

lemma nth_remove_active:
  "j < length d \<Longrightarrow> remove_active i d ! j =
     (if j = i then (d ! j)\<lparr>elem_classes := class_remove ''active'' (elem_classes (d ! j))\<rparr>
      else d ! j)"
  by (simp add: remove_active_def nth_list_update)

lemma nth_add_active:
  "j < length d \<Longrightarrow> add_active i d ! j =
     (if j = i then (d ! j)\<lparr>elem_classes := class_add ''active'' (elem_classes (d ! j))\<rparr>
      else d ! j)"
  by (simp add: add_active_def nth_list_update)

text \<open>After the loop over a node list, its elements are inactive and the others untouched.\<close>

lemma active_fold_remove:
  "j < length d \<Longrightarrow>
   (''active'' \<in> set (elem_classes (fold remove_active xs d ! j))) =
   (j \<notin> set xs \<and> ''active'' \<in> set (elem_classes (d ! j)))"
proof (induction xs arbitrary: d)
  case Nil
  then show ?case by simp
next
  case (Cons x xs)
  have "j < length (remove_active x d)"
    using Cons.prems by simp
  from Cons.IH[OF this] show ?case
    using Cons.prems by (auto simp add: nth_remove_active class_remove_def)
qed

lemma attributes_fold_remove:
  "j < length d \<Longrightarrow>
   elem_id (fold remove_active xs d ! j) = elem_id (d ! j)
   \<and> data_target (fold remove_active xs d ! j) = data_target (d ! j)"
proof (induction xs arbitrary: d)
  case Nil
  then show ?case by simp
next
  case (Cons x xs)
  have "j < length (remove_active x d)"
    using Cons.prems by simp
  from Cons.IH[OF this] show ?case
    using Cons.prems by (simp add: nth_remove_active)
qed

lemma active_add_active:
  "j < length d \<Longrightarrow>
   (''active'' \<in> set (elem_classes (add_active i d ! j))) =
   (j = i \<or> ''active'' \<in> set (elem_classes (d ! j)))"
  by (auto simp add: nth_add_active class_add_def)

lemma attributes_add_active:
  "j < length d \<Longrightarrow>
   elem_id (add_active i d ! j) = elem_id (d ! j)
   \<and> data_target (add_active i d ! j) = data_target (d ! j)"
  by (simp add: nth_add_active)

text \<open>The lookup by id depends on the ids alone.\<close>

lemma getElementById_cong:
  assumes "length d' = length d"
    and "\<And>i. i < length d \<Longrightarrow> elem_id (d' ! i) = elem_id (d ! i)"
  shows "getElementById s d' = getElementById s d"
  unfolding getElementById_def using assms
  by (auto intro!: find_cong)

lemma getElementById_Some:
  "getElementById s d = Some j \<Longrightarrow> j < length d \<and> elem_id (d ! j) = Some s"
  by (auto simp add: getElementById_def find_Some_iff split: if_splits)

lemma length_show_target [simp]: "length (show_target t d) = length d"
  by (simp add: show_target_def Let_def split: option.splits)

lemma show_target_active:
  assumes "j < length d"
  shows "(''active'' \<in> set (elem_classes (show_target t d ! j))) =
     (getElementById (to_string (data_target (d ! t))) d = Some j
      \<or> ''active'' \<in> set (elem_classes (d ! j)))"
  using assms
  by (auto simp add: show_target_def Let_def active_add_active split: option.splits)

lemma show_target_id:
  assumes "j < length d"
  shows "elem_id (show_target t d ! j) = elem_id (d ! j)"
  using assms
  by (auto simp add: show_target_def Let_def attributes_add_active split: option.splits)

text \<open>Which elements are active after a click on the tab at position \<open>t\<close>.\<close>

lemma tab_click_active:
  assumes "t < length (doc st)" and "j < length (doc st)"
  shows "(''active'' \<in> set (elem_classes (doc (tab_click t st) ! j))) =
     (j = t \<or> getElementById (to_string (data_target (doc st ! t))) (doc st) = Some j
      \<or> (j \<notin> set (navTabs st) \<and> j \<notin> set (tabContents st)
          \<and> ''active'' \<in> set (elem_classes (doc st ! j))))"
proof -
  let ?d1 = "fold remove_active (navTabs st) (doc st)"
  let ?d2 = "fold remove_active (tabContents st) ?d1"
  let ?d3 = "add_active t ?d2"
  have dt: "data_target (?d3 ! t) = data_target (doc st ! t)"
    using assms(1) by (simp add: attributes_add_active attributes_fold_remove)
  have "getElementById (to_string (data_target (doc st ! t))) ?d3
      = getElementById (to_string (data_target (doc st ! t))) (doc st)"
    by (rule getElementById_cong) (simp_all add: attributes_add_active attributes_fold_remove)
  then show ?thesis
    using assms dt
    by (auto simp add: tab_click_def Let_def show_target_active active_add_active
        active_fold_remove)
qed

lemma tab_click_id:
  assumes "j < length (doc st)"
  shows "elem_id (doc (tab_click t st) ! j) = elem_id (doc st ! j)"
  using assms
  by (simp add: tab_click_def Let_def show_target_id attributes_add_active
      attributes_fold_remove)


lemma tab_click_data_target:
  assumes "j < length (doc st)"
  shows "data_target (doc (tab_click t st) ! j) = data_target (doc st ! j)"
  using assms
  by (auto simp add: tab_click_def Let_def show_target_def attributes_add_active
      attributes_fold_remove split: option.splits)

lemma querySelectorAll_bound: "list_all (\<lambda>i. i < length d) (querySelectorAll c d)"
  by (simp add: querySelectorAll_def list_all_iff)

lemma initializeTabNavigation_nodes:
  "navTabs (initializeTabNavigation d) = querySelectorAll ''nav-tab'' d
   \<and> tabContents (initializeTabNavigation d) = querySelectorAll ''tab-content'' d
   \<and> length (doc (initializeTabNavigation d)) = length d"
  by (simp add: initializeTabNavigation_def Let_def split: option.splits list.splits)

lemma tab_click_nodes:
  "navTabs (tab_click t st) = navTabs st \<and> tabContents (tab_click t st) = tabContents st
   \<and> length (doc (tab_click t st)) = length (doc st)"
  by (simp add: tab_click_def Let_def)

text \<open>Listeners run one after the other keep the node lists, the ids and the targets.\<close>

lemma fold_tab_click_nodes:
  "navTabs (fold tab_click ts st) = navTabs st
   \<and> tabContents (fold tab_click ts st) = tabContents st
   \<and> length (doc (fold tab_click ts st)) = length (doc st)"
  by (induction ts arbitrary: st) (simp_all add: tab_click_nodes)

lemma fold_tab_click_attributes:
  assumes "j < length (doc st)"
  shows "elem_id (doc (fold tab_click ts st) ! j) = elem_id (doc st ! j)
     \<and> data_target (doc (fold tab_click ts st) ! j) = data_target (doc st ! j)"
  using assms
proof (induction ts arbitrary: st)
  case Nil
  then show ?case by simp
next
  case (Cons t ts)
  have "j < length (doc (tab_click t st))"
    using Cons.prems by (simp add: tab_click_nodes)
  from Cons.IH[OF this] show ?case
    using Cons.prems by (simp add: tab_click_id tab_click_data_target)
qed

lemma click_nodes:
  "navTabs (click x st) = navTabs st \<and> tabContents (click x st) = tabContents st
   \<and> length (doc (click x st)) = length (doc st)"
  by (simp add: click_def fold_tab_click_nodes)

lemma tab_session_nodes:
  "navTabs (tab_session d xs) = querySelectorAll ''nav-tab'' d
   \<and> tabContents (tab_session d xs) = querySelectorAll ''tab-content'' d
   \<and> length (doc (tab_session d xs)) = length d"
proof -
  have "navTabs (fold click xs st) = navTabs st
     \<and> tabContents (fold click xs st) = tabContents st
     \<and> length (doc (fold click xs st)) = length (doc st)" for st
    by (induction xs arbitrary: st) (simp_all add: click_nodes)
  then show ?thesis
    by (simp add: tab_session_def initializeTabNavigation_nodes)
qed

lemma tab_session_bound:
  assumes "j \<in> set (navTabs (tab_session d xs)) \<union> set (tabContents (tab_session d xs))"
  shows "j < length (doc (tab_session d xs))"
  using assms querySelectorAll_bound[of d "''nav-tab''"]
    querySelectorAll_bound[of d "''tab-content''"]
  by (auto simp add: tab_session_nodes list_all_iff)

text \<open>
  After several listeners have run, the active elements are those the last one leaves.
\<close>

lemma fold_tab_click_active:
  assumes "ts \<noteq> []" and "last ts < length (doc st)" and "j < length (doc st)"
    and "j \<in> set (navTabs st) \<union> set (tabContents st)"
  shows "(''active'' \<in> set (elem_classes (doc (fold tab_click ts st) ! j))) =
     (j = last ts \<or>
      getElementById (to_string (data_target (doc st ! last ts))) (doc st) = Some j)"
proof -
  let ?t = "last ts"
  let ?st' = "fold tab_click (butlast ts) st"
  have split: "fold tab_click ts st = tab_click ?t ?st'"
  proof -
    have "ts = butlast ts @ [?t]" using assms(1) by simp
    then have "fold tab_click ts st = fold tab_click (butlast ts @ [?t]) st" by simp
    then show ?thesis by (simp del: append_butlast_last_id)
  qed
  have nodes: "navTabs ?st' = navTabs st" "tabContents ?st' = tabContents st"
    "length (doc ?st') = length (doc st)"
    by (simp_all add: fold_tab_click_nodes)
  have target: "data_target (doc ?st' ! ?t) = data_target (doc st ! ?t)"
    using assms(2) fold_tab_click_attributes by blast
  have lookup: "getElementById s (doc ?st') = getElementById s (doc st)" for s
    by (rule getElementById_cong) (simp_all add: nodes fold_tab_click_attributes)
  have "(''active'' \<in> set (elem_classes (doc (tab_click ?t ?st') ! j))) =
     (j = ?t \<or> getElementById (to_string (data_target (doc ?st' ! ?t))) (doc ?st') = Some j
      \<or> (j \<notin> set (navTabs ?st') \<and> j \<notin> set (tabContents ?st')
          \<and> ''active'' \<in> set (elem_classes (doc ?st' ! j))))"
    by (rule tab_click_active) (simp_all add: nodes assms)
  then show ?thesis
    using assms(4) by (auto simp add: split nodes target lookup)
qed

text \<open>The example documents after they have loaded, and after clicks on them.\<close>

lemma tabbed_document_loaded:
  "tab_session tabbed_document [] =
     \<lparr>doc =
        [\<lparr>elem_id = None, elem_classes = [''nav-tab'', ''active''],
          data_target = Some ''upload-tab-content'', parent = None\<rparr>,
         \<lparr>elem_id = None, elem_classes = [''nav-tab''], data_target = Some ''edit-tab-content'',
          parent = None\<rparr>,
         \<lparr>elem_id = None, elem_classes = [''nav-tab''],
          data_target = Some ''export-tab-content'', parent = None\<rparr>,
         \<lparr>elem_id = Some ''upload-tab-content'', elem_classes = [''tab-content'', ''active''],
          data_target = None, parent = None\<rparr>,
         \<lparr>elem_id = Some ''edit-tab-content'', elem_classes = [''tab-content''],
          data_target = None, parent = None\<rparr>],
      navTabs = [0, 1, 2], tabContents = [3, 4]\<rparr>"
  by (simp add: tab_session_def initializeTabNavigation_def tabbed_document_def
      querySelectorAll_def show_target_def getElementById_def add_active_def class_add_def
      Let_def)

lemma tabbed_document_third_tab_clicked:
  "tab_session tabbed_document [2] =
     \<lparr>doc =
        [\<lparr>elem_id = None, elem_classes = [''nav-tab''],
          data_target = Some ''upload-tab-content'', parent = None\<rparr>,
         \<lparr>elem_id = None, elem_classes = [''nav-tab''], data_target = Some ''edit-tab-content'',
          parent = None\<rparr>,
         \<lparr>elem_id = None, elem_classes = [''nav-tab'', ''active''],
          data_target = Some ''export-tab-content'', parent = None\<rparr>,
         \<lparr>elem_id = Some ''upload-tab-content'', elem_classes = [''tab-content''],
          data_target = None, parent = None\<rparr>,
         \<lparr>elem_id = Some ''edit-tab-content'', elem_classes = [''tab-content''],
          data_target = None, parent = None\<rparr>],
      navTabs = [0, 1, 2], tabContents = [3, 4]\<rparr>" (is "_ = ?r")
proof -
  have "tab_session tabbed_document [2] = click 2 (tab_session tabbed_document [])"
    by (simp add: tab_session_def)
  then show ?thesis
    by (simp add: tabbed_document_loaded click_def listeners_on_path_def path_to_root.simps
        tab_click_def show_target_def getElementById_def add_active_def remove_active_def
        class_add_def class_remove_def Let_def)
qed

lemma nested_tabs_loaded:
  "tab_session nested_tabs [] =
     \<lparr>doc =
        [\<lparr>elem_id = None, elem_classes = [''nav-tab'', ''active''],
          data_target = Some ''outer-content'', parent = None\<rparr>,
         \<lparr>elem_id = None, elem_classes = [''nav-tab''], data_target = Some ''inner-content'',
          parent = Some 0\<rparr>,
         \<lparr>elem_id = Some ''outer-content'', elem_classes = [''tab-content'', ''active''],
          data_target = None, parent = None\<rparr>,
         \<lparr>elem_id = Some ''inner-content'', elem_classes = [''tab-content''],
          data_target = None, parent = None\<rparr>],
      navTabs = [0, 1], tabContents = [2, 3]\<rparr>"
  by (simp add: tab_session_def initializeTabNavigation_def nested_tabs_def
      querySelectorAll_def show_target_def getElementById_def add_active_def class_add_def
      Let_def)

lemma nested_inner: "listeners_on_path (Suc 0) (tab_session nested_tabs []) = [Suc 0, 0]"
  by (simp add: nested_tabs_loaded listeners_on_path_def path_to_root.simps)

lemma nested_inner_listener:
  "tab_click (Suc 0) (tab_session nested_tabs []) =
     \<lparr>doc =
        [\<lparr>elem_id = None, elem_classes = [''nav-tab''],
          data_target = Some ''outer-content'', parent = None\<rparr>,
         \<lparr>elem_id = None, elem_classes = [''nav-tab'', ''active''],
          data_target = Some ''inner-content'', parent = Some 0\<rparr>,
         \<lparr>elem_id = Some ''outer-content'', elem_classes = [''tab-content''],
          data_target = None, parent = None\<rparr>,
         \<lparr>elem_id = Some ''inner-content'', elem_classes = [''tab-content'', ''active''],
          data_target = None, parent = None\<rparr>],
      navTabs = [0, 1], tabContents = [2, 3]\<rparr>"
  by (simp add: nested_tabs_loaded tab_click_def show_target_def getElementById_def
      add_active_def remove_active_def class_add_def class_remove_def Let_def)

lemma nested_clicked:
  "click (Suc 0) (tab_session nested_tabs []) =
     \<lparr>doc =
        [\<lparr>elem_id = None, elem_classes = [''nav-tab'', ''active''],
          data_target = Some ''outer-content'', parent = None\<rparr>,
         \<lparr>elem_id = None, elem_classes = [''nav-tab''], data_target = Some ''inner-content'',
          parent = Some 0\<rparr>,
         \<lparr>elem_id = Some ''outer-content'', elem_classes = [''tab-content'', ''active''],
          data_target = None, parent = None\<rparr>,
         \<lparr>elem_id = Some ''inner-content'', elem_classes = [''tab-content''],
          data_target = None, parent = None\<rparr>],
      navTabs = [0, 1], tabContents = [2, 3]\<rparr>" (is "_ = ?r")
proof -
  have "click (Suc 0) (tab_session nested_tabs []) =
      tab_click 0 (tab_click (Suc 0) (tab_session nested_tabs []))"
    by (simp add: click_def nested_inner)
  also have "\<dots> = ?r"
    unfolding nested_inner_listener
    by (simp add: tab_click_def show_target_def getElementById_def
        add_active_def remove_active_def class_add_def class_remove_def Let_def)
  finally show ?thesis .
qed

lemma crossed_tabs_loaded:
  "tab_session crossed_tabs [] =
     \<lparr>doc =
        [\<lparr>elem_id = Some ''first-tab'', elem_classes = [''nav-tab'', ''active''],
          data_target = Some ''second-tab'', parent = None\<rparr>,
         \<lparr>elem_id = Some ''second-tab'', elem_classes = [''nav-tab'', ''active''],
          data_target = Some ''first-tab'', parent = None\<rparr>],
      navTabs = [0, 1], tabContents = []\<rparr>"
  by (simp add: tab_session_def initializeTabNavigation_def crossed_tabs_def
      querySelectorAll_def show_target_def getElementById_def add_active_def class_add_def
      Let_def)

lemma crossed_first: "listeners_on_path 0 (tab_session crossed_tabs []) = [0]"
  by (simp add: crossed_tabs_loaded listeners_on_path_def path_to_root.simps)

lemma crossed_clicked:
  "click 0 (tab_session crossed_tabs []) = tab_session crossed_tabs []"
proof -
  have "click 0 (tab_session crossed_tabs []) = tab_click 0 (tab_session crossed_tabs [])"
    by (simp add: click_def crossed_first)
  also have "\<dots> = tab_session crossed_tabs []"
    unfolding crossed_tabs_loaded
    by (simp add: tab_click_def show_target_def getElementById_def
        add_active_def remove_active_def class_add_def class_remove_def Let_def)
  finally show ?thesis .
qed

lemma tabbed_second: "listeners_on_path (Suc 0) (tab_session tabbed_document [2]) = [Suc 0]"
  by (simp add: tabbed_document_third_tab_clicked listeners_on_path_def path_to_root.simps)

lemma tabbed_second_clicked:
  "click (Suc 0) (tab_session tabbed_document [2]) =
     \<lparr>doc =
        [\<lparr>elem_id = None, elem_classes = [''nav-tab''],
          data_target = Some ''upload-tab-content'', parent = None\<rparr>,
         \<lparr>elem_id = None, elem_classes = [''nav-tab'', ''active''],
          data_target = Some ''edit-tab-content'', parent = None\<rparr>,
         \<lparr>elem_id = None, elem_classes = [''nav-tab''],
          data_target = Some ''export-tab-content'', parent = None\<rparr>,
         \<lparr>elem_id = Some ''upload-tab-content'', elem_classes = [''tab-content''],
          data_target = None, parent = None\<rparr>,
         \<lparr>elem_id = Some ''edit-tab-content'', elem_classes = [''tab-content'', ''active''],
          data_target = None, parent = None\<rparr>],
      navTabs = [0, 1, 2], tabContents = [3, 4]\<rparr>" (is "_ = ?r")
proof -
  have "click (Suc 0) (tab_session tabbed_document [2]) =
      tab_click (Suc 0) (tab_session tabbed_document [2])"
    by (simp add: click_def tabbed_second)
  also have "\<dots> = ?r"
    unfolding tabbed_document_third_tab_clicked
    by (simp add: tab_click_def show_target_def
        getElementById_def add_active_def remove_active_def class_add_def class_remove_def
        Let_def)
  finally show ?thesis .
qed

text \<open>
  Claim C9, as stated, fails, in two ways. In the document \<open>nested_tabs\<close> a nav tab lies
  inside another nav tab; a click on the inner one runs its listener and then, as the
  event bubbles, the listener of the outer one: afterwards the clicked tab is not active,
  the outer tab is, and the active tab content is the one with the id
  \<^verbatim>\<open>outer-content\<close>, which is not the target \<^verbatim>\<open>inner-content\<close> of the clicked tab. In the
  document \<open>crossed_tabs\<close> the target of the first nav tab is the second nav tab; after a
  click on the first, two nav tabs are active.
\<close>

theorem click_nested_tab_counterexample:
  "listeners_on_path 1 (tab_session nested_tabs []) = [1, 0]
   \<and> ''active'' \<notin> set (elem_classes (doc (click 1 (tab_session nested_tabs [])) ! 1))
   \<and> ''active'' \<in> set (elem_classes (doc (click 1 (tab_session nested_tabs [])) ! 0))
   \<and> tabContents (tab_session nested_tabs []) = [2, 3]
   \<and> ''active'' \<in> set (elem_classes (doc (click 1 (tab_session nested_tabs [])) ! 2))
   \<and> elem_id (doc (click 1 (tab_session nested_tabs [])) ! 2) = Some ''outer-content''
   \<and> data_target (doc (tab_session nested_tabs []) ! 1) = Some ''inner-content''
   \<and> listeners_on_path 0 (tab_session crossed_tabs []) = [0]
   \<and> navTabs (tab_session crossed_tabs []) = [0, 1]
   \<and> ''active'' \<in> set (elem_classes (doc (click 0 (tab_session crossed_tabs [])) ! 0))
   \<and> ''active'' \<in> set (elem_classes (doc (click 0 (tab_session crossed_tabs [])) ! 1))"
  by (simp add: nested_inner nested_clicked crossed_first crossed_clicked)
     (simp add: nested_tabs_loaded crossed_tabs_loaded)

text \<open>
  Claim C9, amended. A click is handled by the tab navigation when the clicked element is a
  nav tab or lies inside one; the listeners of all nav tabs around it run, the innermost
  first. After any such click, an element of the nav-tab list or of the tab-content list
  has the class \<^verbatim>\<open>active\<close> exactly if it is the nav tab whose listener ran last (the
  outermost nav tab around the clicked element; the clicked nav tab itself when it lies in
  no other) or it is the element that \<^verbatim>\<open>getElementById\<close> returns for the
  \<^verbatim>\<open>data-target\<close> of that tab. So none but that tab and its target is active, and only the
  tab is when no element has the target as its id.
\<close>

theorem click_active_elements:
  assumes "listeners_on_path x (tab_session d xs) \<noteq> []"
  shows "\<forall>j\<in>set (navTabs (tab_session d xs)) \<union> set (tabContents (tab_session d xs)).
     (''active'' \<in> set (elem_classes (doc (click x (tab_session d xs)) ! j))) =
     (j = last (listeners_on_path x (tab_session d xs)) \<or>
      getElementById
        (to_string (data_target (doc (tab_session d xs) ! last (listeners_on_path x (tab_session d xs)))))
        (doc (tab_session d xs)) = Some j)"
proof
  fix j
  let ?st = "tab_session d xs"
  let ?ts = "listeners_on_path x ?st"
  assume j: "j \<in> set (navTabs ?st) \<union> set (tabContents ?st)"
  have "last ?ts \<in> set ?ts" using assms by simp
  then have "last ?ts \<in> set (navTabs ?st)"
    by (simp add: listeners_on_path_def)
  then have t: "last ?ts < length (doc ?st)"
    using tab_session_bound by blast
  have "j < length (doc ?st)" using j tab_session_bound by blast
  from fold_tab_click_active[OF assms t this j]
  show "(''active'' \<in> set (elem_classes (doc (click x ?st) ! j))) =
     (j = last ?ts \<or>
      getElementById (to_string (data_target (doc ?st ! last ?ts))) (doc ?st) = Some j)"
    by (simp add: click_def)
qed

theorem click_active_elements_witness:
  "listeners_on_path 1 (tab_session tabbed_document [2]) = [1]
   \<and> navTabs (tab_session tabbed_document [2]) = [0, 1, 2]
   \<and> tabContents (tab_session tabbed_document [2]) = [3, 4]
   \<and> getElementById ''edit-tab-content'' (doc (tab_session tabbed_document [2])) = Some 4
   \<and> ''active'' \<notin> set (elem_classes (doc (click 1 (tab_session tabbed_document [2])) ! 0))
   \<and> ''active'' \<in> set (elem_classes (doc (click 1 (tab_session tabbed_document [2])) ! 1))
   \<and> ''active'' \<notin> set (elem_classes (doc (click 1 (tab_session tabbed_document [2])) ! 2))
   \<and> ''active'' \<notin> set (elem_classes (doc (click 1 (tab_session tabbed_document [2])) ! 3))
   \<and> ''active'' \<in> set (elem_classes (doc (click 1 (tab_session tabbed_document [2])) ! 4))"
  using click_active_elements [where x = 1 and d = tabbed_document and xs = "[2]"]
  by (simp add: tabbed_second tabbed_second_clicked)
     (simp add: tabbed_document_third_tab_clicked getElementById_def)

section \<open>Asset Store\<close>

text \<open>
  Claim C7. For every byte payload, a \<^verbatim>\<open>put\<close> that returns an asset has stored the
  payload so that \<^verbatim>\<open>get\<close> of the returned id yields exactly the payload; and \<^verbatim>\<open>put\<close>
  does return an asset whenever the payload is within the size limit, the content type is
  accepted and the write goes through.
\<close>

theorem get_put_round_trip:
  "(put cfg io_ok st bytes k name ctype = Inr (a, st') \<longrightarrow> get st' (asset_id a) = Inr bytes)
   \<and> (length bytes \<le> max_size_bytes cfg \<and> ctype \<in> set (accepted_types cfg) \<and> io_ok \<longrightarrow>
        (\<exists>b st''. put cfg io_ok st bytes k name ctype = Inr (b, st'')))"
proof (intro conjI impI)
  assume stored: "put cfg io_ok st bytes k name ctype = Inr (a, st')"
  then have "st' = (asset_id a, a, bytes) # st"
    by (auto simp add: put_def Let_def split: if_splits)
  then show "get st' (asset_id a) = Inr bytes"
    by (simp add: get_def)
next
  assume "length bytes \<le> max_size_bytes cfg \<and> ctype \<in> set (accepted_types cfg) \<and> io_ok"
  then show "\<exists>b st''. put cfg io_ok st bytes k name ctype = Inr (b, st'')"
    by (simp add: put_def Let_def)
qed

theorem get_put_round_trip_witness:
  "put \<lparr>max_size_bytes = 1024, accepted_types = [''video/mp4'']\<rparr> True [] [1, 2, 3] Video
       ''holiday.mp4'' ''video/mp4'' =
     Inr (\<lparr>asset_id = 1, asset_kind = Video, original_name = ''holiday.mp4'', size_bytes = 3,
            content_type = ''video/mp4'', derived_from = None\<rparr>,
          [(1, \<lparr>asset_id = 1, asset_kind = Video, original_name = ''holiday.mp4'',
                 size_bytes = 3, content_type = ''video/mp4'', derived_from = None\<rparr>,
            [1, 2, 3])])
   \<and> get [(1, \<lparr>asset_id = 1, asset_kind = Video, original_name = ''holiday.mp4'',
                 size_bytes = 3, content_type = ''video/mp4'', derived_from = None\<rparr>,
            [1, 2, 3])] 1 = Inr [1, 2, 3]"
  using get_put_round_trip [where cfg = "\<lparr>max_size_bytes = 1024, accepted_types = [''video/mp4'']\<rparr>"
      and io_ok = True and st = "[]" and bytes = "[1, 2, 3]" and k = Video
      and name = "''holiday.mp4''" and ctype = "''video/mp4''"
      and a = "\<lparr>asset_id = 1, asset_kind = Video, original_name = ''holiday.mp4'',
                size_bytes = 3, content_type = ''video/mp4'', derived_from = None\<rparr>"
      and st' = "[(1, \<lparr>asset_id = 1, asset_kind = Video, original_name = ''holiday.mp4'',
                size_bytes = 3, content_type = ''video/mp4'', derived_from = None\<rparr>, [1, 2, 3])]"]
  by (simp add: put_def get_def fresh_id_def Let_def)

section \<open>Trim Engine\<close>

text \<open>
  The scenario of the specification: the ten-second video is trimmed to the range from 2
  to 5, and the new asset refers to its source.
\<close>

lemma trim_within_duration:
  "trim \<lparr>max_size_bytes = 1024, accepted_types = [''video/mp4'']\<rparr> True ten_seconds
        whole_clip holiday_store 1 (Fin 2) (Fin 5) =
     Inr (\<lparr>asset_id = 2, asset_kind = Video, original_name = ''holiday.mp4'', size_bytes = 3,
            content_type = ''video/mp4'', derived_from = Some 1\<rparr>,
          (2, \<lparr>asset_id = 2, asset_kind = Video, original_name = ''holiday.mp4'',
                 size_bytes = 3, content_type = ''video/mp4'', derived_from = Some 1\<rparr>,
           [1, 2, 3]) # holiday_store)"
  by (simp add: trim_def holiday_store_def ten_seconds_def whole_clip_def
      spec_violated_bound_def put_def fresh_id_def Let_def)

lemma beyond_duration_violates:
  assumes "js_lt (Fin d) e"
  shows "\<exists>b. spec_violated_bound (Fin d) s e = Some b"
  using assms by (simp add: spec_violated_bound_def)

text \<open>
  Claim C4. For every trim request whose source is a video of the store with a duration
  the toolkit can read, and whose end time exceeds that duration, \<^verbatim>\<open>trim\<close> fails with a
  validation error: it returns no asset and no new store. When the two times are
  otherwise in order (\<open>0 \<le> start < end\<close>), the bound the error names is the end beyond the
  duration.
\<close>

theorem trim_end_beyond_duration:
  assumes "map_of st source_id = Some (source, bytes)"
    and "asset_kind source = Video"
    and "probe bytes = Some source_duration"
    and "js_lt (Fin source_duration) end_seconds"
  shows "(\<exists>b. trim cfg io_ok probe cut_range st source_id start_seconds end_seconds =
              Inl (TrimValidationError (OutOfBounds b)))
     \<and> (\<not> isNaN start_seconds \<and> \<not> js_lt start_seconds (Fin 0) \<and> \<not> js_lt end_seconds (Fin 0)
          \<and> js_lt start_seconds end_seconds \<longrightarrow>
          trim cfg io_ok probe cut_range st source_id start_seconds end_seconds =
            Inl (TrimValidationError (OutOfBounds EndBeyondDuration)))"
proof -
  obtain b
    where b: "spec_violated_bound (Fin source_duration) start_seconds end_seconds = Some b"
    using beyond_duration_violates[OF assms(4)] by blast
  have failed: "trim cfg io_ok probe cut_range st source_id start_seconds end_seconds =
      Inl (TrimValidationError (OutOfBounds b))"
    using assms(1-3) b by (simp add: trim_def)
  have "b = EndBeyondDuration"
    if "\<not> isNaN start_seconds \<and> \<not> js_lt start_seconds (Fin 0)
          \<and> \<not> js_lt end_seconds (Fin 0) \<and> js_lt start_seconds end_seconds"
    using that b assms(4)
    by (cases end_seconds) (auto simp add: spec_violated_bound_def split: if_splits)
  with failed show ?thesis by auto
qed

theorem trim_end_beyond_duration_witness:
  "map_of holiday_store 1 =
     Some (\<lparr>asset_id = 1, asset_kind = Video, original_name = ''holiday.mp4'', size_bytes = 3,
             content_type = ''video/mp4'', derived_from = None\<rparr>, [1, 2, 3])
   \<and> ten_seconds [1, 2, 3] = Some 10 \<and> js_lt (Fin 10) (Fin 50)
   \<and> trim \<lparr>max_size_bytes = 1024, accepted_types = [''video/mp4'']\<rparr> True ten_seconds
        whole_clip holiday_store 1 (Fin 2) (Fin 50) =
       Inl (TrimValidationError (OutOfBounds EndBeyondDuration))"
  using trim_end_beyond_duration [where st = holiday_store and source_id = 1
      and probe = ten_seconds and bytes = "[1, 2, 3]" and source_duration = 10
      and end_seconds = "Fin 50" and start_seconds = "Fin 2"
      and cfg = "\<lparr>max_size_bytes = 1024, accepted_types = [''video/mp4'']\<rparr>"
      and io_ok = True and cut_range = whole_clip
      and source = "\<lparr>asset_id = 1, asset_kind = Video, original_name = ''holiday.mp4'',
                     size_bytes = 3, content_type = ''video/mp4'', derived_from = None\<rparr>"]
  by (simp add: holiday_store_def ten_seconds_def)

section \<open>Further properties of the code\<close>

text \<open>
  The click listener never compares the end time with the duration of the video in the
  preview. For every trim attempt of a listener that has a filename, with
  \<open>0 \<le> start < end\<close> and the end time beyond the duration, it shows no validation error:
  it puts the button into its loading state and sends the \<^verbatim>\<open>/trim_video\<close> request with
  the filename and the two times as \<^verbatim>\<open>JSON.stringify\<close> writes them, an infinite end time
  as \<^verbatim>\<open>null\<close>. Refusing such a range is left to the server.
\<close>

theorem trim_click_ignores_duration:
  assumes "i < length (trim_filenames st)" and "truthy (trim_filenames st ! i)"
    and "\<not> isNaN startTime" and "\<not> isNaN endTime"
    and "\<not> js_lt startTime (Fin 0)" and "\<not> js_lt endTime (Fin 0)"
    and "js_lt startTime endTime"
    and "js_lt (video_duration st) endTime"
  shows "trim_click i startTime endTime st =
     st\<lparr>trim_video_button :=
          \<lparr>disabled = True,
           classList = class_add ''loading'' (classList (trim_video_button st)),
           textContent = ''Trimming...''\<rparr>,
        requests := requests st @
          [TrimVideo i
             (JSON_stringify \<lparr>trim_filename = trim_filenames st ! i,
                              start_time = startTime, end_time = endTime\<rparr>)]\<rparr>"
  using assms(2-7) by (rule trim_click_sends)

theorem trim_click_ignores_duration_witness:
  "1 < length (trim_filenames uploaded_page) \<and> truthy (trim_filenames uploaded_page ! 1)
   \<and> js_lt (Fin 2) PosInf \<and> js_lt (video_duration uploaded_page) PosInf
   \<and> requests (trim_click 1 (Fin 2) PosInf uploaded_page) =
       [TrimVideo 1 \<lparr>json_filename = Some ''a.mp4'', json_start_time = Some 2,
                     json_end_time = None\<rparr>]
   \<and> alerts (trim_click 1 (Fin 2) PosInf uploaded_page) = []
   \<and> requests (trim_click 1 (Fin 2) (Fin 50) uploaded_page) =
       [TrimVideo 1 \<lparr>json_filename = Some ''a.mp4'', json_start_time = Some 2,
                     json_end_time = Some 50\<rparr>]"
  using trim_click_ignores_duration [where i = 1 and st = uploaded_page
      and startTime = "Fin 2" and endTime = PosInf]
  by (simp add: uploaded_page_def JSON_stringify_def trim_click_def Let_def)

text \<open>
  Tab navigation on a page where no nav tab lies inside another, the nav tabs and the tab
  contents are different elements and the target of the clicked tab is not a nav tab: after
  a click that one listener handles, exactly one nav tab is active, the one the listener
  belongs to; a tab content is active only if its id is the target of that tab; and no tab
  content is active if no element has that id.
\<close>

theorem click_on_separate_tabs_and_contents:
  assumes one: "listeners_on_path x (tab_session d xs) = [t]"
    and apart: "set (navTabs (tab_session d xs)) \<inter> set (tabContents (tab_session d xs)) = {}"
    and target: "\<forall>i\<in>set (navTabs (tab_session d xs)).
       getElementById (to_string (data_target (doc (tab_session d xs) ! t)))
         (doc (tab_session d xs)) \<noteq> Some i"
  shows "(\<forall>i\<in>set (navTabs (tab_session d xs)).
            (''active'' \<in> set (elem_classes (doc (click x (tab_session d xs)) ! i))) = (i = t))
     \<and> (\<forall>j\<in>set (tabContents (tab_session d xs)).
            ''active'' \<in> set (elem_classes (doc (click x (tab_session d xs)) ! j)) \<longrightarrow>
            elem_id (doc (click x (tab_session d xs)) ! j) =
              Some (to_string (data_target (doc (tab_session d xs) ! t))))
     \<and> (getElementById (to_string (data_target (doc (tab_session d xs) ! t)))
          (doc (tab_session d xs)) = None \<longrightarrow>
          (\<forall>j\<in>set (tabContents (tab_session d xs)).
             ''active'' \<notin> set (elem_classes (doc (click x (tab_session d xs)) ! j))))"
proof -
  let ?st = "tab_session d xs"
  have "t \<in> set (listeners_on_path x ?st)"
    using one by simp
  then have handled: "t \<in> set (navTabs ?st)"
    by (simp add: listeners_on_path_def)
  have run: "click x ?st = tab_click t ?st"
    by (simp add: click_def one)
  have t: "t < length (doc ?st)"
    using handled tab_session_bound by blast
  have first: "(''active'' \<in> set (elem_classes (doc (tab_click t ?st) ! i))) = (i = t)"
    if "i \<in> set (navTabs ?st)" for i
  proof -
    have "i < length (doc ?st)"
      using that tab_session_bound by blast
    then show ?thesis
      using tab_click_active[OF t, of i] that target by auto
  qed
  have second: "getElementById (to_string (data_target (doc ?st ! t))) (doc ?st) = Some j"
    if "j \<in> set (tabContents ?st)"
      and "''active'' \<in> set (elem_classes (doc (tab_click t ?st) ! j))" for j
  proof -
    have "j < length (doc ?st)"
      using that tab_session_bound by blast
    moreover have "j \<noteq> t"
      using that(1) handled apart by auto
    ultimately show ?thesis
      using tab_click_active[OF t, of j] that by auto
  qed
  have ids: "elem_id (doc (tab_click t ?st) ! j) = Some (to_string (data_target (doc ?st ! t)))"
    if "j \<in> set (tabContents ?st)"
      and "''active'' \<in> set (elem_classes (doc (tab_click t ?st) ! j))" for j
    using second[OF that] getElementById_Some tab_click_id by metis
  show ?thesis
    unfolding run using first second ids by auto
qed

lemma tabbed_third: "listeners_on_path 2 (tab_session tabbed_document []) = [2]"
  by (simp add: tabbed_document_loaded listeners_on_path_def path_to_root.simps)

theorem click_on_separate_tabs_and_contents_witness:
  "listeners_on_path 2 (tab_session tabbed_document []) = [2]
   \<and> navTabs (tab_session tabbed_document []) = [0, 1, 2]
   \<and> tabContents (tab_session tabbed_document []) = [3, 4]
   \<and> getElementById ''export-tab-content'' (doc (tab_session tabbed_document [])) = None
   \<and> ''active'' \<notin> set (elem_classes (doc (click 2 (tab_session tabbed_document [])) ! 0))
   \<and> ''active'' \<notin> set (elem_classes (doc (click 2 (tab_session tabbed_document [])) ! 1))
   \<and> ''active'' \<in> set (elem_classes (doc (click 2 (tab_session tabbed_document [])) ! 2))
   \<and> ''active'' \<notin> set (elem_classes (doc (click 2 (tab_session tabbed_document [])) ! 3))
   \<and> ''active'' \<notin> set (elem_classes (doc (click 2 (tab_session tabbed_document [])) ! 4))"
  using click_on_separate_tabs_and_contents
    [where x = 2 and t = 2 and d = tabbed_document and xs = "[]"]
  by (simp add: tabbed_third)
     (simp add: tabbed_document_loaded getElementById_def)

text \<open>
  A click on the trim button with the start time not before the end time sends no request,
  however many listeners are registered: the requests, the button, the preview and the
  filenames are as before the click, and only alerts are shown.
\<close>

lemma trim_click_refused:
  assumes "js_ge s e"
  shows "requests (trim_click i s e st) = requests st
     \<and> trim_video_button (trim_click i s e st) = trim_video_button st
     \<and> video_src (trim_click i s e st) = video_src st
     \<and> video_preview_area (trim_click i s e st) = video_preview_area st"
  using assms by (auto simp add: trim_click_def alert_def Let_def split: if_splits)

lemma fold_trim_click_refused:
  assumes "js_ge s e"
  shows "requests (fold (\<lambda>i. trim_click i s e) xs st) = requests st
     \<and> trim_video_button (fold (\<lambda>i. trim_click i s e) xs st) = trim_video_button st
     \<and> video_src (fold (\<lambda>i. trim_click i s e) xs st) = video_src st
     \<and> video_preview_area (fold (\<lambda>i. trim_click i s e) xs st) = video_preview_area st"
  by (induction xs arbitrary: st) (simp_all add: trim_click_refused[OF assms])

theorem trim_button_click_start_not_before_end:
  assumes "js_ge startTime endTime"
  shows "requests (fire (ClickTrim startTime endTime) st) = requests st
     \<and> trim_video_button (fire (ClickTrim startTime endTime) st) = trim_video_button st
     \<and> video_src (fire (ClickTrim startTime endTime) st) = video_src st
     \<and> video_preview_area (fire (ClickTrim startTime endTime) st) = video_preview_area st
     \<and> trim_filenames (fire (ClickTrim startTime endTime) st) = trim_filenames st
     \<and> upload_filenames (fire (ClickTrim startTime endTime) st) = upload_filenames st"
  using assms
  by (simp add: trim_button_click_def fold_trim_click_refused fold_trim_click_filenames)

theorem trim_button_click_start_not_before_end_witness:
  "js_ge (Fin 6) (Fin 4)
   \<and> requests (fire (ClickTrim (Fin 6) (Fin 4)) uploaded_page) = []
   \<and> alerts (fire (ClickTrim (Fin 6) (Fin 4)) uploaded_page) =
       [''Please upload a video first.'', ''Start time must be less than end time.'']"
  using trim_button_click_start_not_before_end
    [where startTime = "Fin 6" and endTime = "Fin 4" and st = uploaded_page]
  by (simp add: trim_button_click_def trim_click_def alert_def uploaded_page_def Let_def)

text \<open>
  The listener whose trim request is answered with an ok response, \<^verbatim>\<open>success\<close> true and a
  non-empty \<^verbatim>\<open>trimmed_filename\<close> takes the derived asset over: its
  \<^verbatim>\<open>currentVideoFilename\<close> is the \<^verbatim>\<open>trimmed_filename\<close>, the filenames of the other listeners
  are as before, the source of the preview is \<^verbatim>\<open>/get_video/<trimmed_filename>\<close>, and the
  next request this listener sends names the derived asset as its source.
\<close>

theorem trim_settle_derived_asset:
  assumes "i < length (trim_filenames st)"
    and "success d" and "trimmed_filename d = Some name" and "name \<noteq> []"
    and "\<not> isNaN s" and "\<not> isNaN e" and "\<not> js_lt s (Fin 0)" and "\<not> js_lt e (Fin 0)"
    and "js_lt s e"
  shows "trim_filenames (trim_settle i (Response True (Body d)) st) =
       (trim_filenames st)[i := Some name]
     \<and> video_src (trim_settle i (Response True (Body d)) st) = ''/get_video/'' @ name
     \<and> requests (trim_click i s e (trim_settle i (Response True (Body d)) st)) =
         requests (trim_settle i (Response True (Body d)) st) @
           [TrimVideo i
              (JSON_stringify \<lparr>trim_filename = Some name, start_time = s, end_time = e\<rparr>)]"
proof -
  let ?st1 = "trim_settle i (Response True (Body d)) st"
  have stored: "trim_filenames ?st1 = (trim_filenames st)[i := Some name]"
    using assms(2-4)
    by (simp add: trim_settle_def trim_finally_def trim_then_def alert_def Let_def)
  have src: "video_src ?st1 = ''/get_video/'' @ name"
    using assms(2-4)
    by (simp add: trim_settle_def trim_finally_def trim_then_def alert_def Let_def)
  have now: "trim_filenames ?st1 ! i = Some name"
    using stored assms(1) by simp
  then have "truthy (trim_filenames ?st1 ! i)"
    using assms(4) by simp
  from trim_click_sends[OF this assms(5-9)] now
  have "requests (trim_click i s e ?st1) =
      requests ?st1 @
        [TrimVideo i
           (JSON_stringify \<lparr>trim_filename = Some name, start_time = s, end_time = e\<rparr>)]"
    by simp
  with stored src show ?thesis by simp
qed

theorem trim_settle_derived_asset_witness:
  "1 < length (trim_filenames uploaded_page) \<and> js_lt (Fin 0) (Fin 1)
   \<and> trim_filenames (trim_settle 1 (trimmed_as ''a_trim.mp4'') uploaded_page) =
       [None, Some ''a_trim.mp4'']
   \<and> video_src (trim_settle 1 (trimmed_as ''a_trim.mp4'') uploaded_page) =
       ''/get_video/a_trim.mp4''
   \<and> requests (trim_click 1 (Fin 0) (Fin 1)
        (trim_settle 1 (trimmed_as ''a_trim.mp4'') uploaded_page)) =
       [TrimVideo 1 \<lparr>json_filename = Some ''a_trim.mp4'', json_start_time = Some 0,
                     json_end_time = Some 1\<rparr>]"
  using trim_settle_derived_asset [where i = 1 and st = uploaded_page
      and d = "\<lparr>success = True, message = Some ''Video trimmed'', filename = None,
                trimmed_filename = Some ''a_trim.mp4''\<rparr>"
      and name = "''a_trim.mp4''" and s = "Fin 0" and e = "Fin 1"]
  by (simp add: trimmed_as_def uploaded_page_def JSON_stringify_def trim_settle_def
      trim_finally_def trim_then_def alert_def Let_def)

end
